theory Spec2Isabelle
  imports Main
begin

section \<open>JavaScript values\<close>

text \<open>
  The values the library handles. A number is either integer-valued (\<open>Num\<close>), a finite
  non-integral decimal (\<open>Frac neg ip fs\<close>: sign, integer part, fraction digits, so 2.7 is
  \<open>Frac False 2 [7]\<close>) or \<open>NaN\<close>. \<open>Obj\<close> is a reference to an object, compared by
  identity; \<open>Arr\<close> is the reference to an array that an instance holds in the member of
  that name (its contents live in the instance's record); \<open>Func\<close> is a function object,
  named after the member that holds it.
\<close>

datatype jsval =
    Undefined
  | Null
  | Bool bool
  | Num int
  | Frac bool nat "nat list"
  | NaN
  | Str string
  | Obj nat
  | Arr string
  | Func string

text \<open>\<open>a === b\<close>: NaN is not equal to itself.\<close>

definition strict_eq :: "jsval \<Rightarrow> jsval \<Rightarrow> bool" where
  "strict_eq a b = (a = b \<and> a \<noteq> NaN)"

text \<open>\<open>a == undefined\<close> holds of \<open>undefined\<close> and \<open>null\<close> only.\<close>

definition loosely_undefined :: "jsval \<Rightarrow> bool" where
  "loosely_undefined a = (a = Undefined \<or> a = Null)"

text \<open>SameValue, as \<open>Object.defineProperty\<close> compares values (signed zeros are not modelled).\<close>

definition same_value :: "jsval \<Rightarrow> jsval \<Rightarrow> bool" where
  "same_value a b = (a = b)"


datatype error = TypeError | Error

subsection \<open>Number to string, string to integer\<close>

definition digit_char :: "nat \<Rightarrow> char" where
  "digit_char d = ''0123456789'' ! (d mod 10)"

function show_nat :: "nat \<Rightarrow> string" where
  "show_nat n = (if n < 10 then [digit_char n] else show_nat (n div 10) @ [digit_char (n mod 10)])"
  by pat_completeness auto
termination
  by (relation "measure id") auto

declare show_nat.simps [simp del]

definition show_int :: "int \<Rightarrow> string" where
  "show_int i = (if i < 0 then CHR ''-'' # show_nat (nat (- i)) else show_nat (nat i))"

text \<open>
  \<open>v.toString()\<close>. It throws on \<open>undefined\<close> and \<open>null\<close>. Numbers print in plain decimal
  notation, as JavaScript does for magnitudes from 1e-6 up to 1e21. The last three cases
  stand in for conversions the model does not follow: an object reference prints as a plain
  object does, an array as an empty one, a function by its name. None of them begins with
  a digit or is the name of a property.
\<close>

fun toString :: "jsval \<Rightarrow> error + string" where
  "toString Undefined = Inl TypeError"
| "toString Null = Inl TypeError"
| "toString (Bool b) = Inr (if b then ''true'' else ''false'')"
| "toString (Num i) = Inr (show_int i)"
| "toString (Frac neg ip fs) =
     Inr ((if neg then ''-'' else '''') @ show_nat ip @ ''.'' @ map digit_char fs)"
| "toString NaN = Inr ''NaN''"
| "toString (Str s) = Inr s"
| "toString (Obj r) = Inr ''[object Object]''"
| "toString (Arr a) = Inr ''''"
| "toString (Func f) = Inr (''function '' @ f)"

definition is_ws :: "char \<Rightarrow> bool" where
  "is_ws c = (c \<in> set [CHR '' '', CHR 0x09, CHR 0x0A, CHR 0x0B, CHR 0x0C, CHR 0x0D])"

fun index_of :: "'a \<Rightarrow> 'a list \<Rightarrow> nat option" where
  "index_of x [] = None"
| "index_of x (y # ys) = (if x = y then Some 0 else map_option Suc (index_of x ys))"

definition digit_val :: "char \<Rightarrow> nat option" where
  "digit_val c = index_of c ''0123456789''"

text \<open>The longest prefix of decimal digits, read as a number; \<open>None\<close> when it is empty.\<close>

fun parse_digits :: "string \<Rightarrow> nat option \<Rightarrow> nat option" where
  "parse_digits [] acc = acc"
| "parse_digits (c # cs) acc =
     (case digit_val c of
        None \<Rightarrow> acc
      | Some d \<Rightarrow> parse_digits cs (Some (10 * (case acc of None \<Rightarrow> 0 | Some a \<Rightarrow> a) + d)))"

text \<open>
  \<open>parseInt(s, 10)\<close>: leading white space is skipped, a sign is read, then the longest
  prefix of digits; whatever follows is ignored. \<open>None\<close> is NaN.
\<close>

definition parseInt :: "string \<Rightarrow> int option" where
  "parseInt s =
     (case dropWhile is_ws s of
        [] \<Rightarrow> None
      | c # cs \<Rightarrow>
          if c = CHR ''-'' then map_option (\<lambda>n. - int n) (parse_digits cs None)
          else if c = CHR ''+'' then map_option int (parse_digits cs None)
          else map_option int (parse_digits (c # cs) None))"

section \<open>ETO_Observable\<close>

subsection \<open>Observers and callbacks\<close>

text \<open>
  A callback is arbitrary code. The model knows two kinds: a script that registers and
  unregisters observers on the object that is notifying (what else a callback does lies
  outside the model), and the closure \<open>itemChangeCallback\<close> that ETO_ObservableList
  registers on an item, which captures the item and an index. Every invocation is recorded
  in the object's \<open>calls\<close>, oldest first.
\<close>

datatype action =
    Register callback jsval
  | Unregister nat
and callback =
    Script "action list"
  | ItemChange jsval nat

text \<open>The observer handle; \<open>hid\<close> stands for the identity of the frozen handle object.\<close>

record handle =
  hid :: nat
  callbackFunction :: callback
  userData :: jsval
  callbackThis :: jsval

text \<open>The argument of \<open>notifyAll\<close>; \<open>cd_senders\<close> is \<open>None\<close> when the member is absent.\<close>

record changeDetails =
  cd_name :: jsval
  cd_oldValue :: jsval
  cd_object :: jsval
  cd_senders :: "jsval list option"

text \<open>The object a callback receives.\<close>

record details =
  d_sender :: jsval
  d_senders :: "jsval list"
  d_object :: jsval
  d_name :: jsval
  d_oldValue :: jsval
  d_userData :: jsval

subsection \<open>Properties\<close>

text \<open>
  An own property is a data property (value, writable) or an accessor. The getters of this
  library read a variable of the closure that defined them (\<open>Var\<close>, holding the variable's
  value), or compute from members of the instance (\<open>Computed\<close>). A set function either
  shares that variable with the getter defined in the same call (\<open>Shared\<close>), or, when a
  later \<open>Object.defineProperty\<close> replaced the getter and kept it, has a variable of its
  own (\<open>Own\<close>). A set function may carry the filter of \<open>addPropertyWithSetFilter\<close>.
\<close>

type_synonym setFilterFunc = "jsval \<Rightarrow> jsval \<Rightarrow> jsval"

datatype 'x getter = Var jsval | Computed "'x \<Rightarrow> jsval"

datatype setter = NoSetter | Shared "setFilterFunc option" | Own "setFilterFunc option" jsval

datatype 'x slot = Data jsval bool | Accessor "'x getter" setter

record 'x property =
  slot :: "'x slot"
  enumerable :: bool
  configurable :: bool

text \<open>The descriptor given to \<open>Object.defineProperty\<close>; \<open>None\<close> is an absent member.\<close>

record 'x pdesc =
  pd_enumerable :: "bool option"
  pd_configurable :: "bool option"
  pd_value :: "jsval option"
  pd_writable :: "bool option"
  pd_get :: "'x getter option"
  pd_set :: "setFilterFunc option option"

text \<open>
  The instance: its identity, the names its prototype chain defines, its own properties in
  creation order, whether it is extensible (\<open>seal\<close> clears it), the contents of the
  \<open>m_observers\<close> array, the identity of the next handle, the recorded callback
  invocations, and the members a derived constructor adds (\<open>ext\<close>).
\<close>

record 'x observable =
  self :: jsval
  proto :: "string list"
  own :: "(string \<times> 'x property) list"
  extensible :: bool
  observers :: "handle list"
  next_hid :: nat
  calls :: "(handle \<times> details) list"
  ext :: 'x

definition read_slot :: "'x \<Rightarrow> 'x slot \<Rightarrow> jsval" where
  "read_slot x sl =
     (case sl of
        Data v w \<Rightarrow> v
      | Accessor (Var v) st \<Rightarrow> v
      | Accessor (Computed f) st \<Rightarrow> f x)"

text \<open>\<open>this[n]\<close>: the own property, else the prototype chain, else \<open>undefined\<close>.\<close>

definition get :: "'x observable \<Rightarrow> string \<Rightarrow> jsval" where
  "get s n =
     (case map_of (own s) n of
        Some p \<Rightarrow> read_slot (ext s) (slot p)
      | None \<Rightarrow> if n \<in> set (proto s) then Func n else Undefined)"

text \<open>
  What the set function kept by a redefinition becomes: a variable it shared with the
  replaced getter is now its own.
\<close>

fun kept_setter :: "'x slot \<Rightarrow> setter" where
  "kept_setter (Accessor (Var v) (Shared f)) = Own f v"
| "kept_setter (Accessor (Computed g) (Shared f)) = Own f Undefined"
| "kept_setter (Accessor g st) = st"
| "kept_setter (Data v w) = NoSetter"

definition is_data_desc :: "'x pdesc \<Rightarrow> bool" where
  "is_data_desc d = (pd_value d \<noteq> None \<or> pd_writable d \<noteq> None)"

definition is_accessor_desc :: "'x pdesc \<Rightarrow> bool" where
  "is_accessor_desc d = (pd_get d \<noteq> None \<or> pd_set d \<noteq> None)"

definition desc_setter :: "'x pdesc \<Rightarrow> setter" where
  "desc_setter d = (case pd_set d of None \<Rightarrow> NoSetter | Some f \<Rightarrow> Shared f)"

text \<open>The property a descriptor creates where there was none: absent members default.\<close>

definition new_prop :: "'x pdesc \<Rightarrow> 'x property" where
  "new_prop d =
     \<lparr> slot =
         (if is_accessor_desc d
          then Accessor (case pd_get d of None \<Rightarrow> Var Undefined | Some g \<Rightarrow> g) (desc_setter d)
          else Data (case pd_value d of None \<Rightarrow> Undefined | Some v \<Rightarrow> v)
                 (case pd_writable d of None \<Rightarrow> False | Some w \<Rightarrow> w)),
       enumerable = (case pd_enumerable d of None \<Rightarrow> False | Some e \<Rightarrow> e),
       configurable = (case pd_configurable d of None \<Rightarrow> False | Some c \<Rightarrow> c) \<rparr>"

text \<open>
  Whether the redefinition of an existing property is refused. The get and set functions
  of a descriptor are closures made for that call, never the ones already installed.
\<close>

definition redefine_rejected :: "'x property \<Rightarrow> 'x pdesc \<Rightarrow> bool" where
  "redefine_rejected cur d =
     (\<not> configurable cur \<and>
      (pd_configurable d = Some True
       \<or> (case pd_enumerable d of None \<Rightarrow> False | Some e \<Rightarrow> e \<noteq> enumerable cur)
       \<or> (case slot cur of
             Data v w \<Rightarrow>
               is_accessor_desc d
               \<or> (\<not> w \<and> (pd_writable d = Some True
                         \<or> (case pd_value d of None \<Rightarrow> False | Some v' \<Rightarrow> \<not> same_value v' v)))
           | Accessor g st \<Rightarrow> is_data_desc d \<or> is_accessor_desc d)))"

text \<open>The existing property after an accepted redefinition.\<close>

definition redefined_slot :: "'x slot \<Rightarrow> 'x pdesc \<Rightarrow> 'x slot" where
  "redefined_slot cur d =
     (if is_accessor_desc d then
        Accessor
          (case pd_get d of
             Some g \<Rightarrow> g
           | None \<Rightarrow> (case cur of Accessor g st \<Rightarrow> g | Data v w \<Rightarrow> Var Undefined))
          (case pd_set d of
             Some f \<Rightarrow> Shared f
           | None \<Rightarrow> kept_setter cur)
      else if is_data_desc d then
        (case cur of
           Data v w \<Rightarrow>
             Data (case pd_value d of None \<Rightarrow> v | Some v' \<Rightarrow> v')
                  (case pd_writable d of None \<Rightarrow> w | Some w' \<Rightarrow> w')
         | Accessor g st \<Rightarrow>
             Data (case pd_value d of None \<Rightarrow> Undefined | Some v' \<Rightarrow> v')
                  (case pd_writable d of None \<Rightarrow> False | Some w' \<Rightarrow> w'))
      else cur)"

definition redefined_prop :: "'x property \<Rightarrow> 'x pdesc \<Rightarrow> 'x property" where
  "redefined_prop cur d =
     \<lparr> slot = redefined_slot (slot cur) d,
       enumerable = (case pd_enumerable d of None \<Rightarrow> enumerable cur | Some e \<Rightarrow> e),
       configurable = (case pd_configurable d of None \<Rightarrow> configurable cur | Some c \<Rightarrow> c) \<rparr>"

fun update_own :: "string \<Rightarrow> 'p \<Rightarrow> (string \<times> 'p) list \<Rightarrow> (string \<times> 'p) list" where
  "update_own n p [] = []"
| "update_own n p ((k, q) # kqs) = (if k = n then (k, p) # kqs else (k, q) # update_own n p kqs)"

text \<open>
  \<open>Object.defineProperty(this, n, d)\<close>: a new property goes last, a redefined one keeps
  its place; a refused definition throws TypeError and changes nothing.
\<close>

definition defineProperty :: "string \<Rightarrow> 'x pdesc \<Rightarrow> 'x observable \<Rightarrow> error + 'x observable" where
  "defineProperty n d s =
     (case map_of (own s) n of
        None \<Rightarrow>
          if extensible s then Inr (s\<lparr>own := own s @ [(n, new_prop d)]\<rparr>) else Inl TypeError
      | Some cur \<Rightarrow>
          if redefine_rejected cur d then Inl TypeError
          else Inr (s\<lparr>own := update_own n (redefined_prop cur d) (own s)\<rparr>))"

subsection \<open>addChangeObserver, removeChangeObserver, notifyAll\<close>

text \<open>
  \<open>addChangeObserver(callbackFunc, userData, thisForCallback)\<close>; a \<open>callbackFunc\<close> that
  is not a function is \<open>None\<close>. The result is the handle, \<open>None\<close> for \<open>null\<close>.
\<close>

definition addChangeObserver ::
  "callback option \<Rightarrow> jsval \<Rightarrow> jsval \<Rightarrow> 'x observable \<Rightarrow> handle option \<times> 'x observable" where
  "addChangeObserver callbackFunc ud thisForCallback s =
     (case callbackFunc of
        Some cb \<Rightarrow>
          (let observerHandle =
                 \<lparr> hid = next_hid s, callbackFunction = cb, userData = ud,
                   callbackThis = (if loosely_undefined thisForCallback then self s
                                   else thisForCallback) \<rparr>
           in (Some observerHandle,
               s\<lparr>observers := observers s @ [observerHandle], next_hid := Suc (next_hid s)\<rparr>))
      | None \<Rightarrow> (None, s))"

text \<open>The array without its first entry that is the given handle, if there is one.\<close>

fun remove_handle :: "nat \<Rightarrow> handle list \<Rightarrow> handle list option" where
  "remove_handle h [] = None"
| "remove_handle h (o1 # os) =
     (if hid o1 = h then Some os else map_option ((#) o1) (remove_handle h os))"

definition removeChangeObserver :: "nat \<Rightarrow> 'x observable \<Rightarrow> bool \<times> 'x observable" where
  "removeChangeObserver h s =
     (case remove_handle h (observers s) of
        Some os \<Rightarrow> (True, s\<lparr>observers := os\<rparr>)
      | None \<Rightarrow> (False, s))"

fun run_action :: "action \<Rightarrow> 'x observable \<Rightarrow> 'x observable" where
  "run_action (Register cb ud) s = snd (addChangeObserver (Some cb) ud Undefined s)"
| "run_action (Unregister h) s = snd (removeChangeObserver h s)"

text \<open>\<open>func.call(callbackThis, details)\<close>: the call is recorded, then the callback runs.\<close>

definition invoke :: "handle \<Rightarrow> details \<Rightarrow> 'x observable \<Rightarrow> 'x observable" where
  "invoke h d s =
     (let s1 = s\<lparr>calls := calls s @ [(h, d)]\<rparr>
      in case callbackFunction h of
           Script acts \<Rightarrow> fold run_action acts s1
         | ItemChange item i \<Rightarrow> s1)"

fun weight :: "callback \<Rightarrow> nat" and weight_action :: "action \<Rightarrow> nat" where
  "weight (Script acts) = Suc (sum_list (map weight_action acts))"
| "weight (ItemChange item i) = 1"
| "weight_action (Register cb ud) = weight cb"
| "weight_action (Unregister h) = 0"

definition pending :: "nat \<Rightarrow> handle list \<Rightarrow> nat" where
  "pending i os = sum_list (map (\<lambda>h. weight (callbackFunction h)) (drop i os))"

text \<open>
  The loop of \<open>notifyAll\<close>: \<open>for (i = 0; i < this.m_observers.length; i++)\<close>. The
  array is read again at every step, so what a callback registers or unregisters is seen
  by the rest of the pass. \<open>d\<close> is the details object but for \<open>userData\<close>.
\<close>

function notify_loop :: "details \<Rightarrow> nat \<Rightarrow> 'x observable \<Rightarrow> 'x observable" where
  "notify_loop d i s =
     (if i < length (observers s)
      then notify_loop d (Suc i)
             (invoke (observers s ! i) (d\<lparr>d_userData := userData (observers s ! i)\<rparr>) s)
      else s)"
  by pat_completeness auto

text \<open>
  What \<open>notifyAll\<close> makes of its argument before the loop: a missing \<open>object\<close> is
  \<open>this\<close>, and \<open>this\<close> is added to \<open>senders\<close>.
\<close>

definition make_details :: "changeDetails \<Rightarrow> 'x observable \<Rightarrow> details" where
  "make_details cd s =
     \<lparr> d_sender = self s,
       d_senders = (case cd_senders cd of None \<Rightarrow> [self s] | Some ss \<Rightarrow> ss @ [self s]),
       d_object = (if loosely_undefined (cd_object cd) then self s else cd_object cd),
       d_name = cd_name cd, d_oldValue = cd_oldValue cd, d_userData = Undefined \<rparr>"

text \<open>\<open>notifyAll(changeDetails)\<close>.\<close>

definition notifyAll :: "changeDetails \<Rightarrow> 'x observable \<Rightarrow> 'x observable" where
  "notifyAll cd s = notify_loop (make_details cd s) 0 s"

subsection \<open>Adding, writing and removing properties\<close>

text \<open>
  The check shared by the three add functions, \<open>this[propertyName] !== undefined\<close>: it
  reads the property through the prototype chain and looks at the value only.
\<close>

definition already_here :: "'x observable \<Rightarrow> string \<Rightarrow> bool" where
  "already_here s n = (\<not> strict_eq (get s n) Undefined)"

definition special_case_name :: "jsval \<Rightarrow> bool" where
  "special_case_name propertyName =
     (propertyName = Null \<or> propertyName = Undefined
      \<or> propertyName = Str ''ETO_Observable_Properties'')"

definition default_true :: "bool option \<Rightarrow> bool" where
  "default_true b = (case b of None \<Rightarrow> True | Some v \<Rightarrow> v)"

text \<open>
  \<open>addProperty(propertyName, propertyValue, removable, writable, isEnumerable)\<close>; an
  omitted flag is \<open>None\<close>.
\<close>

definition addProperty ::
  "jsval \<Rightarrow> jsval \<Rightarrow> bool option \<Rightarrow> bool option \<Rightarrow> bool option \<Rightarrow> 'x observable
     \<Rightarrow> (error + bool) \<times> 'x observable" where
  "addProperty propertyName propertyValue removable writable isEnumerable s =
     (if special_case_name propertyName then (Inr False, s)
      else case toString propertyName of
        Inl e \<Rightarrow> (Inl e, s)
      | Inr n \<Rightarrow>
          if already_here s n then (Inr False, s)
          else
            (let props =
                   (if writable = Some False
                    then \<lparr> pd_enumerable = Some (default_true isEnumerable),
                           pd_configurable = Some (default_true removable),
                           pd_value = Some propertyValue, pd_writable = Some False,
                           pd_get = None, pd_set = None \<rparr>
                    else \<lparr> pd_enumerable = Some (default_true isEnumerable),
                           pd_configurable = Some (default_true removable),
                           pd_value = None, pd_writable = None,
                           pd_get = Some (Var propertyValue), pd_set = Some None \<rparr>)
             in case defineProperty n props s of
                  Inl e \<Rightarrow> (Inl e, s)
                | Inr s1 \<Rightarrow>
                    (Inr True,
                     notifyAll \<lparr> cd_name = Str n, cd_oldValue = Undefined, cd_object = self s1,
                                 cd_senders = None \<rparr> s1)))"

text \<open>
  The function \<open>addPropertyWithPrivateSet\<close> returns: it writes the variable that the
  getter of the property it was made for reads.
\<close>

datatype setFunc = SetFunc string

definition addPropertyWithPrivateSet ::
  "jsval \<Rightarrow> jsval \<Rightarrow> bool option \<Rightarrow> 'x observable \<Rightarrow> (error + setFunc option) \<times> 'x observable" where
  "addPropertyWithPrivateSet propertyName propertyValue isEnumerable s =
     (if special_case_name propertyName then (Inr None, s)
      else case toString propertyName of
        Inl e \<Rightarrow> (Inl e, s)
      | Inr n \<Rightarrow>
          if already_here s n then (Inr None, s)
          else
            (let props = \<lparr> pd_enumerable = Some (default_true isEnumerable),
                           pd_configurable = Some False, pd_value = None, pd_writable = None,
                           pd_get = Some (Var propertyValue), pd_set = None \<rparr>
             in case defineProperty n props s of
                  Inl e \<Rightarrow> (Inl e, s)
                | Inr s1 \<Rightarrow>
                    (Inr (Some (SetFunc n)),
                     notifyAll \<lparr> cd_name = Str n, cd_oldValue = Undefined, cd_object = self s1,
                                 cd_senders = None \<rparr> s1)))"

text \<open>
  \<open>addPropertyWithSetFilter(propertyName, propertyValue, setFilterFunc, removable,
  isEnumerable)\<close>; a \<open>setFilterFunc\<close> that is not a function is \<open>None\<close>.
\<close>

definition addPropertyWithSetFilter ::
  "jsval \<Rightarrow> jsval \<Rightarrow> setFilterFunc option \<Rightarrow> bool option \<Rightarrow> bool option \<Rightarrow> 'x observable
     \<Rightarrow> (error + bool) \<times> 'x observable" where
  "addPropertyWithSetFilter propertyName propertyValue setFilterFunc removable isEnumerable s =
     (if special_case_name propertyName then (Inr False, s)
      else case setFilterFunc of
        None \<Rightarrow> (Inr False, s)
      | Some f \<Rightarrow>
         (case toString propertyName of
            Inl e \<Rightarrow> (Inl e, s)
          | Inr n \<Rightarrow>
              if already_here s n then (Inr False, s)
              else
                (let props = \<lparr> pd_enumerable = Some (default_true isEnumerable),
                               pd_configurable = Some (default_true removable),
                               pd_value = None, pd_writable = None,
                               pd_get = Some (Var propertyValue), pd_set = Some (Some f) \<rparr>
                 in case defineProperty n props s of
                      Inl e \<Rightarrow> (Inl e, s)
                    | Inr s1 \<Rightarrow>
                        (Inr True,
                         notifyAll \<lparr> cd_name = Str n, cd_oldValue = Undefined,
                                     cd_object = self s1, cd_senders = None \<rparr> s1))))"


text \<open>
  The set functions the add functions install. Each compares the candidate with the
  variable of its closure by \<open>===\<close> and returns when they are equal; otherwise it stores
  the candidate and notifies. A filter is called first, with the assigned value and the
  variable, and its result is the candidate.
\<close>

definition call_setter :: "string \<Rightarrow> jsval \<Rightarrow> 'x property \<Rightarrow> 'x observable \<Rightarrow> 'x observable" where
  "call_setter n v p s =
     (case slot p of
        Data cur w \<Rightarrow> s
      | Accessor g NoSetter \<Rightarrow> s
      | Accessor g (Shared flt) \<Rightarrow>
          (let cur = (case g of Var c \<Rightarrow> c | Computed f \<Rightarrow> Undefined);
               v1 = (case flt of None \<Rightarrow> v | Some f \<Rightarrow> f v cur)
           in if strict_eq cur v1 then s
              else notifyAll \<lparr> cd_name = Str n, cd_oldValue = cur, cd_object = Undefined,
                               cd_senders = None \<rparr>
                     (s\<lparr>own := update_own n
                         (p\<lparr>slot := (case g of Var c \<Rightarrow> Accessor (Var v1) (Shared flt)
                                       | Computed f \<Rightarrow> Accessor g (Own flt v1))\<rparr>) (own s)\<rparr>))
      | Accessor g (Own flt cur) \<Rightarrow>
          (let v1 = (case flt of None \<Rightarrow> v | Some f \<Rightarrow> f v cur)
           in if strict_eq cur v1 then s
              else notifyAll \<lparr> cd_name = Str n, cd_oldValue = cur, cd_object = Undefined,
                               cd_senders = None \<rparr>
                     (s\<lparr>own := update_own n (p\<lparr>slot := Accessor g (Own flt v1)\<rparr>) (own s)\<rparr>)))"

text \<open>
  The assignment \<open>this[n] = v\<close> in non-strict code: an accessor's set function is called;
  a property without one, or a data property that is not writable, ignores the
  assignment; a writable data property takes the value; a name the object does not own
  becomes a plain data property when the object is extensible.
\<close>

definition assign :: "string \<Rightarrow> jsval \<Rightarrow> 'x observable \<Rightarrow> 'x observable" where
  "assign n v s =
     (case map_of (own s) n of
        Some p \<Rightarrow>
          (case slot p of
             Data cur w \<Rightarrow>
               if w then s\<lparr>own := update_own n (p\<lparr>slot := Data v True\<rparr>) (own s)\<rparr> else s
           | Accessor g st \<Rightarrow> call_setter n v p s)
      | None \<Rightarrow>
          if extensible s
          then s\<lparr>own := own s @ [(n, \<lparr>slot = Data v True, enumerable = True, configurable = True\<rparr>)]\<rparr>
          else s)"


text \<open>A value used as a property key.\<close>

definition to_key :: "jsval \<Rightarrow> string" where
  "to_key v =
     (case v of Undefined \<Rightarrow> ''undefined'' | Null \<Rightarrow> ''null''
      | _ \<Rightarrow> (case toString v of Inr k \<Rightarrow> k | Inl e \<Rightarrow> []))"


definition seal :: "'x observable \<Rightarrow> 'x observable" where
  "seal s = s\<lparr>extensible := False,
              own := map (\<lambda>kp. (fst kp, (snd kp)\<lparr>configurable := False\<rparr>)) (own s)\<rparr>"

subsection \<open>Construction and serialization\<close>

text \<open>
  The names an instance finds on its prototype chain: the members of
  \<open>ETO_Observable.prototype\<close>, then those of \<open>Object.prototype\<close>. \<open>get\<close> yields a
  function object for each of them.
\<close>

definition ETO_Observable_prototype :: "string list" where
  "ETO_Observable_prototype =
     [''constructor'', ''addChangeObserver'', ''addDeserializedProperty'', ''addProperty'',
      ''addPropertyWithPrivateSet'', ''addPropertyWithSetFilter'', ''addROProperty'',
      ''notifyAll'', ''removeChangeObserver'', ''removeProperty'', ''seal'', ''toJSON'',
      ''toString'', ''hasOwnProperty'', ''isPrototypeOf'', ''propertyIsEnumerable'',
      ''toLocaleString'', ''valueOf'', ''__defineGetter__'', ''__defineSetter__'',
      ''__lookupGetter__'', ''__lookupSetter__'', ''__proto__'']"

text \<open>The object \<open>new\<close> hands to a constructor.\<close>

definition fresh_object :: "jsval \<Rightarrow> string list \<Rightarrow> 'x \<Rightarrow> 'x observable" where
  "fresh_object me names x =
     \<lparr> self = me, proto = names, own = [], extensible = True, observers = [], next_hid = 0,
       calls = [], ext = x \<rparr>"

text \<open>One entry of \<open>ETO_Observable_SerializedData\<close>.\<close>

record propDesc =
  sd_name :: jsval
  sd_value :: jsval
  sd_enumerable :: "bool option"
  sd_writable :: "bool option"
  sd_configurable :: "bool option"
  sd_varType :: jsval

text \<open>
  \<open>addDeserializedProperty(propDesc)\<close>. \<open>globalObj\<close> maps the name of a global
  constructor function to what \<open>new\<close> of it returns.
\<close>

definition addDeserializedProperty ::
  "(string \<Rightarrow> (jsval \<Rightarrow> jsval) option) \<Rightarrow> propDesc \<Rightarrow> 'x observable
     \<Rightarrow> (error + bool) \<times> 'x observable" where
  "addDeserializedProperty globalObj propDesc s =
     (if sd_varType propDesc = Str ''string'' \<or> sd_varType propDesc = Str ''boolean''
         \<or> sd_varType propDesc = Str ''number''
      then addProperty (sd_name propDesc) (sd_value propDesc) (sd_configurable propDesc)
             (sd_writable propDesc) (sd_enumerable propDesc) s
      else case globalObj (to_key (sd_varType propDesc)) of
        None \<Rightarrow> (Inr False, s)
      | Some ctor \<Rightarrow>
          addProperty (sd_name propDesc) (ctor (sd_value propDesc)) (sd_configurable propDesc)
            (sd_writable propDesc) (sd_enumerable propDesc) s)"

text \<open>
  The constructor's argument \<open>objectToCopy\<close>: not a non-null object, an object with the
  member \<open>ETO_Observable_SerializedData\<close>, or another object, given by its enumerable
  properties in enumeration order.
\<close>

datatype objectToCopy =
    NotAnObject
  | SerializedData "propDesc list"
  | PlainObject "(string \<times> jsval) list"

fun add_serialized ::
  "(string \<Rightarrow> (jsval \<Rightarrow> jsval) option) \<Rightarrow> propDesc list \<Rightarrow> 'x observable \<Rightarrow> error + 'x observable" where
  "add_serialized globalObj [] s = Inr s"
| "add_serialized globalObj (desc # param) s =
     (if sd_varType desc = Undefined then add_serialized globalObj param s
      else case addDeserializedProperty globalObj desc s of
        (Inl e, s1) \<Rightarrow> Inl e
      | (Inr b, s1) \<Rightarrow> add_serialized globalObj param s1)"

fun add_enumerable :: "(string \<times> jsval) list \<Rightarrow> 'x observable \<Rightarrow> error + 'x observable" where
  "add_enumerable [] s = Inr s"
| "add_enumerable ((n, v) # kvs) s =
     (case addProperty (Str n) v (Some True) (Some True) (Some True) s of
        (Inl e, s1) \<Rightarrow> Inl e
      | (Inr b, s1) \<Rightarrow> add_enumerable kvs s1)"

definition value_only :: "jsval \<Rightarrow> 'x pdesc" where
  "value_only v =
     \<lparr> pd_enumerable = None, pd_configurable = None, pd_value = Some v, pd_writable = None,
       pd_get = None, pd_set = None \<rparr>"

text \<open>
  The constructor \<open>ETO_Observable(objectToCopy, simpleSerialize)\<close>, run on \<open>this\<close>.
  \<open>m_simpleSerialize\<close> is defined last, after the properties were copied.
\<close>

definition ETO_Observable ::
  "(string \<Rightarrow> (jsval \<Rightarrow> jsval) option) \<Rightarrow> objectToCopy \<Rightarrow> jsval \<Rightarrow> 'x observable
     \<Rightarrow> error + 'x observable" where
  "ETO_Observable globalObj objectToCopy simpleSerialize this =
     (case defineProperty ''m_observers'' (value_only (Arr ''m_observers'')) (this\<lparr>observers := []\<rparr>) of
        Inl e \<Rightarrow> Inl e
      | Inr s0 \<Rightarrow>
          (case (case objectToCopy of
                   NotAnObject \<Rightarrow> Inr s0
                 | SerializedData param \<Rightarrow> add_serialized globalObj param s0
                 | PlainObject kvs \<Rightarrow> add_enumerable kvs s0) of
             Inl e \<Rightarrow> Inl e
           | Inr s1 \<Rightarrow>
               defineProperty ''m_simpleSerialize''
                 (value_only (if simpleSerialize = Undefined then Bool True else simpleSerialize))
                 s1))"

definition new_ETO_Observable ::
  "jsval \<Rightarrow> (string \<Rightarrow> (jsval \<Rightarrow> jsval) option) \<Rightarrow> objectToCopy \<Rightarrow> jsval \<Rightarrow> error + unit observable" where
  "new_ETO_Observable me globalObj objectToCopy simpleSerialize =
     ETO_Observable globalObj objectToCopy simpleSerialize (fresh_object me ETO_Observable_prototype ())"








subsection \<open>Callbacks that leave the observers alone\<close>





section \<open>Invertible commands\<close>

text \<open>
  The command classes of the library: \<open>ETO_SetPropertyCmd(object, propertyName, value)\<close>,
  \<open>ETO_InvertibleCmds(cmdArr)\<close>, and the abstract base \<open>ETO_InvertibleCmd\<close>, whose \<open>exec\<close>
  throws. The object a \<open>ETO_SetPropertyCmd\<close> writes is taken to be a plain object: the
  objects are a store from references to the values of their members, \<open>Undefined\<close> where a
  member is absent.
\<close>

datatype cmd =
    SetPropertyCmd nat string jsval
  | InvertibleCmds "cmd list"
  | InvertibleCmd

type_synonym store = "nat \<Rightarrow> string \<Rightarrow> jsval"

text \<open>
  \<open>exec()\<close> returns the inverse command. \<open>ETO_InvertibleCmds\<close> runs its commands in
  order and puts the inverse of the command at \<open>i\<close> at \<open>cmdArr.length - i - 1\<close>.
\<close>

fun exec :: "cmd \<Rightarrow> store \<Rightarrow> error + (cmd \<times> store)"
  and exec_all :: "cmd list \<Rightarrow> store \<Rightarrow> error + (cmd list \<times> store)" where
  "exec (SetPropertyCmd object propertyName v) st =
     Inr (SetPropertyCmd object propertyName (st object propertyName),
          st(object := (st object)(propertyName := v)))"
| "exec (InvertibleCmds cmdArr) st =
     (case exec_all cmdArr st of
        Inl e \<Rightarrow> Inl e
      | Inr (inverseArr, st1) \<Rightarrow> Inr (InvertibleCmds inverseArr, st1))"
| "exec InvertibleCmd st = Inl Error"
| "exec_all [] st = Inr ([], st)"
| "exec_all (c # cs) st =
     (case exec c st of
        Inl e \<Rightarrow> Inl e
      | Inr (inverseCmd, st1) \<Rightarrow>
          (case exec_all cs st1 of
             Inl e \<Rightarrow> Inl e
           | Inr (inverseArr, st2) \<Rightarrow> Inr (inverseArr @ [inverseCmd], st2)))"

section \<open>ETO_UndoRedoSystem\<close>

text \<open>
  \<open>s.replace(pat, rep)\<close> with a string pattern: the first occurrence only.
\<close>

fun replace_first :: "string \<Rightarrow> string \<Rightarrow> string \<Rightarrow> string" where
  "replace_first [] pat rep = (if pat = [] then rep else [])"
| "replace_first (c # cs) pat rep =
     (if take (length pat) (c # cs) = pat then rep @ drop (length pat) (c # cs)
      else c # replace_first cs pat rep)"

text \<open>\<open>label.replace(pat, rep)\<close> on a label that may not be a string.\<close>

definition replace_label :: "jsval \<Rightarrow> string \<Rightarrow> string \<Rightarrow> error + jsval" where
  "replace_label label pat rep =
     (case label of Str t \<Rightarrow> Inr (Str (replace_first t pat rep)) | _ \<Rightarrow> Inl TypeError)"

text \<open>
  The two stacks, each an array of \<open>[text, cmd]\<close> pairs whose top is the last element. They
  are the contents of the arrays that the members \<open>m_undos\<close> and \<open>m_redos\<close> refer to.
\<close>

record stacks =
  m_undos :: "(jsval \<times> cmd) list"
  m_redos :: "(jsval \<times> cmd) list"

type_synonym undoRedoSystem = "stacks observable"

definition ETO_UndoRedoSystem_prototype :: "string list" where
  "ETO_UndoRedoSystem_prototype =
     [''addUndo'', ''clear'', ''execRedo'', ''execUndo'', ''execWithUndo'']
     @ ETO_Observable_prototype"

text \<open>The getters of \<open>undoCount\<close> and \<open>redoCount\<close>.\<close>

definition undoCount_get :: "stacks \<Rightarrow> jsval" where
  "undoCount_get x = Num (int (length (m_undos x)))"

definition redoCount_get :: "stacks \<Rightarrow> jsval" where
  "redoCount_get x = Num (int (length (m_redos x)))"

definition count_getter :: "(stacks \<Rightarrow> jsval) \<Rightarrow> stacks pdesc" where
  "count_getter g =
     \<lparr> pd_enumerable = Some True, pd_configurable = Some False, pd_value = None,
       pd_writable = None, pd_get = Some (Computed g), pd_set = None \<rparr>"

text \<open>Runs \<open>this.addProperty(...)\<close> and goes on with the object; the answer is not looked at.\<close>

definition then_addProperty ::
  "jsval \<Rightarrow> jsval \<Rightarrow> bool \<Rightarrow> bool \<Rightarrow> bool \<Rightarrow> error + 'x observable \<Rightarrow> error + 'x observable" where
  "then_addProperty n v removable writable isEnumerable r =
     (case r of
        Inl e \<Rightarrow> Inl e
      | Inr s \<Rightarrow>
          (case addProperty n v (Some removable) (Some writable) (Some isEnumerable) s of
             (Inl e, s1) \<Rightarrow> Inl e
           | (Inr b, s1) \<Rightarrow> Inr s1))"

text \<open>The constructor \<open>ETO_UndoRedoSystem()\<close>, run on \<open>this\<close>.\<close>

definition ETO_UndoRedoSystem :: "undoRedoSystem \<Rightarrow> error + undoRedoSystem" where
  "ETO_UndoRedoSystem this =
     (case then_addProperty (Str ''redoText'') (Str ''Redo'') False True True
            (then_addProperty (Str ''undoText'') (Str ''Undo'') False True True
              (then_addProperty (Str ''m_redos'') (Arr ''m_redos'') False False False
                (then_addProperty (Str ''m_undos'') (Arr ''m_undos'') False False False
                  (ETO_Observable (\<lambda>k. None) NotAnObject Undefined
                     (this\<lparr>ext := \<lparr>m_undos = [], m_redos = []\<rparr>\<rparr>))))) of
        Inl e \<Rightarrow> Inl e
      | Inr s \<Rightarrow>
          (case defineProperty ''undoCount'' (count_getter undoCount_get) s of
             Inl e \<Rightarrow> Inl e
           | Inr s1 \<Rightarrow> defineProperty ''redoCount'' (count_getter redoCount_get) s1))"

definition new_ETO_UndoRedoSystem :: "jsval \<Rightarrow> error + undoRedoSystem" where
  "new_ETO_UndoRedoSystem me =
     ETO_UndoRedoSystem
       (fresh_object me ETO_UndoRedoSystem_prototype \<lparr>m_undos = [], m_redos = []\<rparr>)"

text \<open>The second argument of \<open>addUndo\<close>: a command, or an array of commands.\<close>

datatype cmdOrArrOfCmds = Cmd cmd | ArrOfCmds "cmd list"

definition package :: "cmdOrArrOfCmds \<Rightarrow> cmd" where
  "package a = (case a of ArrOfCmds arr \<Rightarrow> InvertibleCmds arr | Cmd c \<Rightarrow> c)"

text \<open>
  \<open>addUndo(text, cmdOrArrOfCmds)\<close>. \<open>previousRedoCount\<close> is read through the property; it
  is a number, so \<open>!= 0\<close> is being another number than 0. The call always answers
  \<open>true\<close>; the model gives the system it leaves.
\<close>

definition addUndo :: "jsval \<Rightarrow> cmdOrArrOfCmds \<Rightarrow> undoRedoSystem \<Rightarrow> undoRedoSystem" where
  "addUndo label a s =
     (let s1 = s\<lparr>ext := (ext s)\<lparr>m_undos := m_undos (ext s) @ [(label, package a)]\<rparr>\<rparr>;
          s2 = assign ''undoText'' label s1;
          previousRedoCount = get s2 ''redoCount'';
          s3 = s2\<lparr>ext := (ext s2)\<lparr>m_redos := []\<rparr>\<rparr>;
          s4 = assign ''redoText'' (Str ''Redo'') s3;
          s5 = notifyAll \<lparr> cd_name = Str ''undoCount'',
                           cd_oldValue = Num (int (length (m_undos (ext s4))) - 1),
                           cd_object = self s4, cd_senders = None \<rparr> s4
      in if previousRedoCount \<noteq> Num 0
         then notifyAll \<lparr> cd_name = Str ''redoCount'', cd_oldValue = previousRedoCount,
                          cd_object = self s5, cd_senders = None \<rparr> s5
         else s5)"

text \<open>\<open>clear()\<close>.\<close>

definition clear :: "undoRedoSystem \<Rightarrow> undoRedoSystem" where
  "clear s =
     (let previousUndoCount = get s ''undoCount'';
          previousRedoCount = get s ''redoCount'';
          s1 = s\<lparr>ext := \<lparr>m_undos = [], m_redos = []\<rparr>\<rparr>;
          s2 = assign ''undoText'' (Str ''Undo'') s1;
          s3 = assign ''redoText'' (Str ''Redo'') s2;
          s4 = (if previousUndoCount \<noteq> Num 0
                then notifyAll \<lparr> cd_name = Str ''undoCount'', cd_oldValue = previousUndoCount,
                                 cd_object = self s3, cd_senders = None \<rparr> s3
                else s3)
      in if previousRedoCount \<noteq> Num 0
         then notifyAll \<lparr> cd_name = Str ''redoCount'', cd_oldValue = previousRedoCount,
                          cd_object = self s4, cd_senders = None \<rparr> s4
         else s4)"

text \<open>
  \<open>execUndo()\<close>, on the system and the store the commands act on. A command that throws,
  or a label that has no \<open>replace\<close>, ends the call with the error.
\<close>

definition execUndo :: "undoRedoSystem \<times> store \<Rightarrow> error + (undoRedoSystem \<times> store)" where
  "execUndo sw =
     (let s = fst sw; st = snd sw in
      if m_undos (ext s) = [] then Inr (s, st)
      else
        (let undoPair = last (m_undos (ext s));
             s1 = s\<lparr>ext := (ext s)\<lparr>m_undos := butlast (m_undos (ext s))\<rparr>\<rparr>
         in case exec (snd undoPair) st of
              Inl e \<Rightarrow> Inl e
            | Inr (redo, st1) \<Rightarrow>
                (case replace_label (fst undoPair) ''Undo'' ''Redo'' of
                   Inl e \<Rightarrow> Inl e
                 | Inr redoText \<Rightarrow>
                     (let s2 = s1\<lparr>ext := (ext s1)\<lparr>m_redos := m_redos (ext s1) @ [(redoText, redo)]\<rparr>\<rparr>;
                          s3 = assign ''redoText'' redoText s2;
                          s4 = notifyAll \<lparr> cd_name = Str ''redoCount'',
                                 cd_oldValue = Num (int (length (m_redos (ext s3))) - 1),
                                 cd_object = self s3, cd_senders = None \<rparr> s3;
                          s5 = (if m_undos (ext s4) = [] then assign ''undoText'' (Str ''Undo'') s4
                                else assign ''undoText'' (fst (last (m_undos (ext s4)))) s4)
                      in Inr (notifyAll \<lparr> cd_name = Str ''undoCount'',
                                 cd_oldValue = Num (int (length (m_undos (ext s5))) + 1),
                                 cd_object = self s5, cd_senders = None \<rparr> s5,
                              st1)))))"

text \<open>\<open>execRedo()\<close>.\<close>

definition execRedo :: "undoRedoSystem \<times> store \<Rightarrow> error + (undoRedoSystem \<times> store)" where
  "execRedo sw =
     (let s = fst sw; st = snd sw in
      if m_redos (ext s) = [] then Inr (s, st)
      else
        (let redoPair = last (m_redos (ext s));
             s1 = s\<lparr>ext := (ext s)\<lparr>m_redos := butlast (m_redos (ext s))\<rparr>\<rparr>
         in case exec (snd redoPair) st of
              Inl e \<Rightarrow> Inl e
            | Inr (undo, st1) \<Rightarrow>
                (case replace_label (fst redoPair) ''Redo'' ''Undo'' of
                   Inl e \<Rightarrow> Inl e
                 | Inr undoText \<Rightarrow>
                     (let s2 = s1\<lparr>ext := (ext s1)\<lparr>m_undos := m_undos (ext s1) @ [(undoText, undo)]\<rparr>\<rparr>;
                          s3 = assign ''undoText'' undoText s2;
                          s4 = notifyAll \<lparr> cd_name = Str ''undoCount'',
                                 cd_oldValue = Num (int (length (m_undos (ext s3))) - 1),
                                 cd_object = self s3, cd_senders = None \<rparr> s3;
                          s5 = (if m_redos (ext s4) = [] then assign ''redoText'' (Str ''Redo'') s4
                                else assign ''redoText'' (fst (last (m_redos (ext s4)))) s4)
                      in Inr (notifyAll \<lparr> cd_name = Str ''redoCount'',
                                 cd_oldValue = Num (int (length (m_redos (ext s5))) + 1),
                                 cd_object = self s5, cd_senders = None \<rparr> s5,
                              st1)))))"

text \<open>
  The four properties as the constructor leaves them: \<open>undoText\<close> and \<open>redoText\<close> are
  properties of \<open>addProperty\<close> with a set function, \<open>undoCount\<close> and \<open>redoCount\<close> have
  the getters above and no set function.
\<close>

definition slot_of :: "'x observable \<Rightarrow> string \<Rightarrow> 'x slot option" where
  "slot_of s n = map_option slot (map_of (own s) n)"

definition plain_writable :: "'x slot option \<Rightarrow> bool" where
  "plain_writable sl = (case sl of Some (Accessor (Var v) (Shared None)) \<Rightarrow> True | _ \<Rightarrow> False)"

definition installed :: "undoRedoSystem \<Rightarrow> bool" where
  "installed s =
     (plain_writable (slot_of s ''undoText'') \<and> plain_writable (slot_of s ''redoText'')
      \<and> slot_of s ''undoCount'' = Some (Accessor (Computed undoCount_get) NoSetter)
      \<and> slot_of s ''redoCount'' = Some (Accessor (Computed redoCount_get) NoSetter))"


section \<open>ETO_ObservableList\<close>

text \<open>
  An observer of the list, as \<open>addChangeObserver\<close> freezes it; \<open>lo_hid\<close> stands for the
  identity of the handle. The callbacks of list observers are taken to leave the list and
  its items alone; every call is recorded in \<open>l_calls\<close>, oldest first.
\<close>

record listObserver =
  lo_hid :: nat
  lo_userData :: jsval
  observesItemChanges :: bool

text \<open>
  The argument of \<open>notifyObservers\<close>, with \<open>None\<close> for an absent member, and the copy an
  observer receives.
\<close>

record listChange =
  lc_name :: jsval
  lc_object :: "jsval option"
  lc_senders :: "jsval list option"
  lc_oldValue :: "jsval option"
  lc_listChangeType :: "string option"
  lc_index :: nat
  lc_listItem :: "jsval option"

record listDetails =
  ld_sender :: jsval
  ld_senders :: "jsval list"
  ld_object :: jsval
  ld_name :: jsval
  ld_oldValue :: "jsval option"
  ld_listChangeType :: "string option"
  ld_index :: nat
  ld_listItem :: "jsval option"
  ld_userData :: jsval

text \<open>
  The list: \<open>m_storage\<close> holds the tuples \<open>[item, observerHandle]\<close>, the handle given by
  its identity on the item and \<open>None\<close> for \<open>null\<close>; \<open>indexed\<close> is the set of indices
  for which the list has an accessor made by \<open>makeIndexProperty\<close>.
\<close>

record observableList =
  l_self :: jsval
  m_storage :: "(jsval \<times> nat option) list"
  l_observers :: "listObserver list"
  m_addValidator :: "(jsval \<Rightarrow> jsval) option"
  l_next_hid :: nat
  l_calls :: "(listObserver \<times> listDetails) list"
  indexed :: "nat set"

text \<open>
  The list together with the ETO_Observable objects that may be its items: \<open>heap\<close> maps
  the reference of such an object to its state.
\<close>

record world =
  heap :: "nat \<Rightarrow> unit observable option"
  lst :: observableList

text \<open>\<open>notifyObservers(changeDetails)\<close>.\<close>

definition notifyObservers :: "listChange \<Rightarrow> observableList \<Rightarrow> observableList" where
  "notifyObservers cd l =
     (let object = (case lc_object cd of None \<Rightarrow> l_self l | Some ob \<Rightarrow> ob);
          senders = (case lc_senders cd of None \<Rightarrow> [l_self l] | Some ss \<Rightarrow> ss @ [l_self l])
      in l\<lparr>l_calls := l_calls l @
            map (\<lambda>obs. (obs, \<lparr> ld_sender = l_self l, ld_senders = senders, ld_object = object,
                                ld_name = lc_name cd, ld_oldValue = lc_oldValue cd,
                                ld_listChangeType = lc_listChangeType cd, ld_index = lc_index cd,
                                ld_listItem = lc_listItem cd, ld_userData = lo_userData obs \<rparr>))
              (filter (\<lambda>obs. \<not> (object \<noteq> l_self l \<and> \<not> observesItemChanges obs))
                 (l_observers l))\<rparr>)"

text \<open>
  \<open>addChangeObserver(callbackFunc, userData, wantsItemChangesToo)\<close> of the list; the
  result is the handle, \<open>None\<close> for \<open>null\<close>.
\<close>

definition list_addChangeObserver ::
  "jsval \<Rightarrow> jsval \<Rightarrow> jsval \<Rightarrow> observableList \<Rightarrow> listObserver option \<times> observableList" where
  "list_addChangeObserver callbackFunc ud wantsItemChangesToo l =
     (if callbackFunc \<noteq> Undefined \<and> callbackFunc \<noteq> Null then
        (let observerHandle =
               \<lparr> lo_hid = l_next_hid l, lo_userData = ud,
                 observesItemChanges = (wantsItemChangesToo = Bool True) \<rparr>
         in (Some observerHandle,
             l\<lparr>l_observers := l_observers l @ [observerHandle],
               l_next_hid := Suc (l_next_hid l)\<rparr>))
      else (None, l))"

text \<open>
  The part of \<open>add\<close> after the index is known: the validator, the subscription to an item
  that is an ETO_Observable (the callback captures the item and \<open>insertionIndex\<close>), the
  insertion, the index accessors from the insertion point on, the notification.
\<close>

definition add_at :: "jsval \<Rightarrow> nat \<Rightarrow> world \<Rightarrow> (error + bool) \<times> world" where
  "add_at item insertionIndex w =
     (if (case m_addValidator (lst w) of None \<Rightarrow> False | Some f \<Rightarrow> f item \<noteq> Bool True)
      then (Inr False, w)
      else
        (let (observerHandle, hp) =
               (case item of
                  Obj r \<Rightarrow>
                    (case heap w r of
                       Some ob \<Rightarrow>
                         (let (h, ob1) = addChangeObserver (Some (ItemChange item insertionIndex))
                                           (l_self (lst w)) Undefined ob
                          in (map_option hid h, (heap w)(r := Some ob1)))
                     | None \<Rightarrow> (None, heap w))
                | _ \<Rightarrow> (None, heap w));
             storage = take insertionIndex (m_storage (lst w)) @ [(item, observerHandle)]
                         @ drop insertionIndex (m_storage (lst w));
             l1 = (lst w)\<lparr>m_storage := storage,
                          indexed := indexed (lst w) \<union> {insertionIndex ..< length storage}\<rparr>
         in (Inr True,
             \<lparr> heap = hp,
               lst = notifyObservers
                       \<lparr> lc_name = Str (show_nat insertionIndex), lc_object = Some (l_self l1),
                         lc_senders = None, lc_oldValue = None, lc_listChangeType = Some ''add'',
                         lc_index = insertionIndex, lc_listItem = None \<rparr> l1 \<rparr>)))"

text \<open>
  \<open>add(item, insertionIndex)\<close>. A defined index goes through
  \<open>parseInt(insertionIndex.toString(), 10)\<close>.
\<close>

definition add :: "jsval \<Rightarrow> jsval \<Rightarrow> world \<Rightarrow> (error + bool) \<times> world" where
  "add item insertionIndex w =
     (if insertionIndex = Undefined then add_at item (length (m_storage (lst w))) w
      else case toString insertionIndex of
        Inl e \<Rightarrow> (Inl e, w)
      | Inr str \<Rightarrow>
          (case parseInt str of
             None \<Rightarrow> (Inr False, w)
           | Some i \<Rightarrow>
               if i < 0 \<or> i > int (length (m_storage (lst w))) then (Inr False, w)
               else add_at item (nat i) w))"


text \<open>\<open>at(index)\<close>, for a number or \<open>undefined\<close>.\<close>

definition at :: "int option \<Rightarrow> world \<Rightarrow> jsval" where
  "at index w =
     (case index of
        None \<Rightarrow> Undefined
      | Some i \<Rightarrow>
          if i < 0 \<or> i \<ge> int (length (m_storage (lst w))) then Undefined
          else fst (m_storage (lst w) ! nat i))"

definition toArray :: "world \<Rightarrow> jsval list" where
  "toArray w = map fst (m_storage (lst w))"

text \<open>
  \<open>indexOf(item)\<close>: the first index whose item is \<open>===\<close> to the given one, else -1.
\<close>

fun first_index :: "jsval \<Rightarrow> jsval list \<Rightarrow> nat \<Rightarrow> int" where
  "first_index item [] i = - 1"
| "first_index item (listItem # rest) i =
     (if strict_eq item listItem then int i else first_index item rest (Suc i))"

definition indexOf :: "jsval \<Rightarrow> world \<Rightarrow> int" where
  "indexOf item w = first_index item (toArray w) 0"

text \<open>
  The last loop of \<open>remove\<close>, over the removed tuples: the list's observer is taken off an
  item that had one, and the removal is notified with the index the item had.
\<close>

fun notify_removed :: "nat \<Rightarrow> nat \<Rightarrow> (jsval \<times> nat option) list \<Rightarrow> world \<Rightarrow> world" where
  "notify_removed startIndex i [] w = w"
| "notify_removed startIndex i (item # removed) w =
     (let hp = (case (fst item, snd item) of
                  (Obj r, Some h) \<Rightarrow>
                    (case heap w r of
                       Some ob \<Rightarrow> (heap w)(r := Some (snd (removeChangeObserver h ob)))
                     | None \<Rightarrow> heap w)
                | _ \<Rightarrow> heap w);
          l1 = notifyObservers
                 \<lparr> lc_name = Str (show_nat (startIndex + i)), lc_object = Some (l_self (lst w)),
                   lc_senders = None, lc_oldValue = Some (fst item),
                   lc_listChangeType = Some ''remove'', lc_index = i + startIndex,
                   lc_listItem = None \<rparr> (lst w)
      in notify_removed startIndex (Suc i) removed \<lparr> heap = hp, lst = l1 \<rparr>)"

text \<open>\<open>remove(startIndex, count)\<close>; an omitted \<open>count\<close> is \<open>None\<close>. It returns the number removed.\<close>

definition list_remove :: "int \<Rightarrow> int option \<Rightarrow> world \<Rightarrow> nat \<times> world" where
  "list_remove startIndex count0 w =
     (let count1 = (case count0 of None \<Rightarrow> 1 | Some c \<Rightarrow> c);
          len = int (length (m_storage (lst w)))
      in if startIndex < 0 \<or> startIndex \<ge> len then (0, w)
         else if count1 \<le> 0 then (0, w)
         else
           (let count2 = (if startIndex + count1 > len then len - startIndex else count1);
                removed = take (nat count2) (drop (nat startIndex) (m_storage (lst w)));
                storage = take (nat startIndex) (m_storage (lst w))
                            @ drop (nat startIndex + nat count2) (m_storage (lst w));
                l1 = (lst w)\<lparr>m_storage := storage,
                             indexed := (indexed (lst w) - {nat startIndex ..< nat len})
                                          \<union> {nat startIndex ..< length storage}\<rparr>
            in (length removed, notify_removed (nat startIndex) 0 removed (w\<lparr>lst := l1\<rparr>))))"

definition list_clear :: "world \<Rightarrow> world" where
  "list_clear w = snd (list_remove 0 (Some (int (length (m_storage (lst w))))) w)"

definition removeLast :: "world \<Rightarrow> bool \<times> world" where
  "removeLast w =
     (if length (m_storage (lst w)) = 0 then (False, w)
      else (let (n, w1) = list_remove (int (length (m_storage (lst w))) - 1) None w
            in (n = 1, w1)))"

text \<open>The loop of \<open>splice\<close> over the items to insert; what \<open>add\<close> answers is not looked at.\<close>

fun add_each :: "int \<Rightarrow> jsval list \<Rightarrow> world \<Rightarrow> error + world" where
  "add_each i [] w = Inr w"
| "add_each i (item # items) w =
     (case add item (Num i) w of
        (Inl e, w1) \<Rightarrow> Inl e
      | (Inr b, w1) \<Rightarrow> add_each (i + 1) items w1)"

text \<open>
  \<open>splice(startIndex, deleteCount, item1, item2, ...)\<close>; an omitted \<open>deleteCount\<close> is
  \<open>None\<close>. \<open>removedItems\<close> is filled by the loop
  \<open>for (i = startIndex; i < this.m_storage.length; i++)\<close> before \<open>remove\<close> is called.
\<close>

definition splice :: "int \<Rightarrow> int option \<Rightarrow> jsval list \<Rightarrow> world \<Rightarrow> (error + jsval list) \<times> world" where
  "splice startIndex0 deleteCount0 items w =
     (let len = int (length (m_storage (lst w)));
          startIndex = (if startIndex0 > len then len
                        else if startIndex0 < - len then 0
                        else if startIndex0 < 0 then len + startIndex0
                        else startIndex0);
          deleteCount = (case deleteCount0 of
                           None \<Rightarrow> len - startIndex
                         | Some c \<Rightarrow> if c > len - startIndex then len - startIndex else c);
          removedItems = map fst (drop (nat startIndex) (m_storage (lst w)));
          w1 = snd (list_remove startIndex (Some deleteCount) w)
      in case add_each startIndex items w1 of
           Inl e \<Rightarrow> (Inl e, w1)
         | Inr w2 \<Rightarrow> (Inr removedItems, w2))"

text \<open>
  The set function of the accessor that \<open>makeIndexProperty(index)\<close> defines, called by
  \<open>list[index] = newItem\<close>. The list has these accessors for the indices below its length; an
  assignment at another index is not a replacement and leaves the storage alone.
\<close>

definition set_index :: "nat \<Rightarrow> jsval \<Rightarrow> world \<Rightarrow> world" where
  "set_index index newItem w =
     (if index \<notin> indexed (lst w) \<or> index \<ge> length (m_storage (lst w)) then w
      else
        (let item = m_storage (lst w) ! index in
         if strict_eq (fst item) newItem then w
         else
           (let hp1 = (case (fst item, snd item) of
                         (Obj r, Some h) \<Rightarrow>
                           (case heap w r of
                              Some ob \<Rightarrow> (heap w)(r := Some (snd (removeChangeObserver h ob)))
                            | None \<Rightarrow> heap w)
                       | _ \<Rightarrow> heap w);
                changeDetails =
                  \<lparr> lc_name = Str (show_nat index), lc_object = Some (l_self (lst w)),
                    lc_senders = None, lc_oldValue = Some (fst item),
                    lc_listChangeType = Some ''replace'', lc_index = index, lc_listItem = None \<rparr>;
                (observerHandle, hp2) =
                  (case newItem of
                     Obj r \<Rightarrow>
                       (case hp1 r of
                          Some ob \<Rightarrow>
                            (let (h, ob1) = addChangeObserver (Some (ItemChange newItem index))
                                              (l_self (lst w)) Undefined ob
                             in (map_option hid h, hp1(r := Some ob1)))
                        | None \<Rightarrow> (None, hp1))
                   | _ \<Rightarrow> (None, hp1));
                l1 = (lst w)\<lparr>m_storage := (m_storage (lst w))[index := (newItem, observerHandle)]\<rparr>
            in \<lparr> heap = hp2, lst = notifyObservers changeDetails l1 \<rparr>)))"

text \<open>
  What the list does when one of its item callbacks is called with \<open>info\<close>: it stamps
  \<open>listItem\<close> and \<open>index\<close>, the captured values, and notifies its own observers.
\<close>

definition itemChangeCallback :: "handle \<times> details \<Rightarrow> observableList \<Rightarrow> observableList" where
  "itemChangeCallback c l =
     (case callbackFunction (fst c) of
        ItemChange item insertionIndex \<Rightarrow>
          notifyObservers
            \<lparr> lc_name = d_name (snd c), lc_object = Some (d_object (snd c)),
              lc_senders = Some (d_senders (snd c)), lc_oldValue = Some (d_oldValue (snd c)),
              lc_listChangeType = None, lc_index = insertionIndex, lc_listItem = Some item \<rparr> l
      | Script acts \<Rightarrow> l)"

text \<open>
  The assignment \<open>item[n] = v\<close> to the ETO_Observable at the reference \<open>r\<close>: the item
  notifies its observers, and each call that reaches a callback of the list is forwarded.
\<close>

definition assign_item :: "nat \<Rightarrow> string \<Rightarrow> jsval \<Rightarrow> world \<Rightarrow> world" where
  "assign_item r n v w =
     (case heap w r of
        None \<Rightarrow> w
      | Some ob \<Rightarrow>
          (let ob1 = assign n v ob
           in \<lparr> heap = (heap w)(r := Some ob1),
                lst = fold itemChangeCallback (drop (length (calls ob)) (calls ob1)) (lst w) \<rparr>))"

text \<open>
  \<open>new ETO_ObservableList(options)\<close> with at most the option \<open>addValidator\<close>; copying
  from \<open>objectToCopy\<close> is a sequence of \<open>add\<close> calls.
\<close>

definition new_ETO_ObservableList :: "jsval \<Rightarrow> (jsval \<Rightarrow> jsval) option \<Rightarrow> observableList" where
  "new_ETO_ObservableList me addValidator =
     \<lparr> l_self = me, m_storage = [], l_observers = [], m_addValidator = addValidator,
       l_next_hid = 0, l_calls = [], indexed = {} \<rparr>"



section \<open>Serialization round trip\<close>










section \<open>Instances used as examples\<close>

text \<open>
  \<open>new ETO_Observable()\<close>, then the same object with one observer whose callback is inert,
  with one observer whose callback registers another, and with two observers of which the
  first unregisters itself.
\<close>

definition example_object :: "unit observable" where
  "example_object =
     (case new_ETO_Observable (Obj 1) (\<lambda>k. None) NotAnObject Undefined of
        Inr s \<Rightarrow> s
      | Inl e \<Rightarrow> fresh_object (Obj 1) ETO_Observable_prototype ())"




text \<open>
  A set filter that keeps numbers at 10 or above and refuses everything else, and an object
  with a property \<open>x\<close> under that filter whose initial value is 1 (the initial value does
  not pass through the filter).
\<close>

definition at_least_ten :: setFilterFunc where
  "at_least_ten v cur = (case v of Num i \<Rightarrow> Num (max i 10) | _ \<Rightarrow> cur)"



definition undefined_x_object :: "unit observable" where
  "undefined_x_object = snd (addProperty (Str ''x'') Undefined None None None example_object)"

text \<open>
  \<open>new ETO_UndoRedoSystem()\<close>, and the same with one observer whose callback is inert.
  The store of the example has one object, with \<open>x\<close> = 1; the command sets \<open>x\<close> to 2.
\<close>

definition example_system :: undoRedoSystem where
  "example_system =
     (case new_ETO_UndoRedoSystem (Obj 7) of
        Inr s \<Rightarrow> s
      | Inl e \<Rightarrow> fresh_object (Obj 7) ETO_UndoRedoSystem_prototype \<lparr>m_undos = [], m_redos = []\<rparr>)"


definition example_store :: store where
  "example_store = (\<lambda>r n. if r = 3 \<and> n = ''x'' then Num 1 else Undefined)"

definition set_x :: cmd where
  "set_x = SetPropertyCmd 3 ''x'' (Num 2)"

text \<open>
  A list (the object 20) with one observer that wants item changes too, and an
  ETO_Observable (the object 10) made from \<open>{x: 1}\<close>; the list after \<open>add("a")\<close>,
  \<open>add("b")\<close>, \<open>add("c")\<close>; and the list after \<open>add(item)\<close> of the object 10 followed
  by \<open>add("z", 0)\<close>.
\<close>

definition item_a :: "unit observable" where
  "item_a =
     (case new_ETO_Observable (Obj 10) (\<lambda>k. None) (PlainObject [(''x'', Num 1)]) Undefined of
        Inr s \<Rightarrow> s
      | Inl e \<Rightarrow> fresh_object (Obj 10) ETO_Observable_prototype ())"

definition example_world :: world where
  "example_world =
     \<lparr> heap = (\<lambda>r. None)(10 := Some item_a),
       lst = snd (list_addChangeObserver (Func ''listener'') (Str ''listener'') (Bool True)
                    (new_ETO_ObservableList (Obj 20) None)) \<rparr>"

definition abc_world :: world where
  "abc_world =
     snd (add (Str ''c'') Undefined (snd (add (Str ''b'') Undefined
       (snd (add (Str ''a'') Undefined example_world)))))"

definition shifted_world :: world where
  "shifted_world = snd (add (Str ''z'') (Num 0) (snd (add (Obj 10) Undefined example_world)))"






section \<open>Termination of the notification loop\<close>

lemma pending_append: "pending i (os @ [h]) \<le> pending i os + weight (callbackFunction h)"
  by (cases "i - length os") (simp_all add: pending_def)

lemma pending_Suc_le: "pending (Suc j) os \<le> pending j os"
proof (cases "j < length os")
  case True
  then have "drop j os = os ! j # drop (Suc j) os"
    by (simp add: Cons_nth_drop_Suc)
  then show ?thesis by (simp add: pending_def)
next
  case False
  then show ?thesis by (simp add: pending_def)
qed

lemma pending_Cons_le: "pending i os \<le> pending i (o1 # os)"
proof (cases i)
  case 0
  then show ?thesis by (simp add: pending_def)
next
  case (Suc j)
  then show ?thesis using pending_Suc_le [of j os] by (simp add: pending_def)
qed

lemma pending_remove_handle:
  "remove_handle h os = Some os' \<Longrightarrow> pending i os' \<le> pending i os"
proof (induction os arbitrary: i os')
  case Nil
  then show ?case by simp
next
  case (Cons o1 os)
  show ?case
  proof (cases "hid o1 = h")
    case True
    with Cons.prems have "os' = os" by simp
    then show ?thesis using pending_Cons_le by simp
  next
    case False
    with Cons.prems obtain os'' where r: "remove_handle h os = Some os''" and e: "os' = o1 # os''"
      by auto
    show ?thesis
    proof (cases i)
      case 0
      from Cons.IH [OF r, of 0] show ?thesis using 0 e by (simp add: pending_def)
    next
      case (Suc j)
      from Cons.IH [OF r, of j] show ?thesis using Suc e by (simp add: pending_def)
    qed
  qed
qed

lemma pending_run_action:
  "pending k (observers (run_action a s)) \<le> pending k (observers s) + weight_action a"
proof (cases a)
  case (Register cb ud)
  then show ?thesis
    using pending_append [of k "observers s"
        "\<lparr>hid = next_hid s, callbackFunction = cb, userData = ud, callbackThis = self s\<rparr>"]
    by (simp add: addChangeObserver_def Let_def loosely_undefined_def)
next
  case (Unregister h)
  then show ?thesis
    using pending_remove_handle [of h "observers s" _ k]
    by (simp add: removeChangeObserver_def split: option.splits)
qed

lemma pending_fold:
  "pending k (observers (fold run_action acts s))
     \<le> pending k (observers s) + sum_list (map weight_action acts)"
proof (induction acts arbitrary: s)
  case Nil
  then show ?case by simp
next
  case (Cons a acts)
  have "pending k (observers (fold run_action acts (run_action a s)))
          \<le> pending k (observers (run_action a s)) + sum_list (map weight_action acts)"
    by (rule Cons.IH)
  also have "\<dots> \<le> pending k (observers s) + weight_action a + sum_list (map weight_action acts)"
    using pending_run_action [of k a s] by simp
  finally show ?case by simp
qed

lemma pending_invoke:
  "Suc (pending k (observers (invoke h d s))) \<le> pending k (observers s) + weight (callbackFunction h)"
proof (cases "callbackFunction h")
  case (Script acts)
  then show ?thesis
    using pending_fold [of k acts "s\<lparr>calls := calls s @ [(h, d)]\<rparr>"]
    by (simp add: invoke_def Let_def)
next
  case (ItemChange item i)
  then show ?thesis by (simp add: invoke_def Let_def)
qed

lemma pending_step:
  assumes "i < length (observers s)"
  shows "pending (Suc i) (observers (invoke (observers s ! i) d s)) < pending i (observers s)"
proof -
  from assms have "drop i (observers s) = observers s ! i # drop (Suc i) (observers s)"
    by (simp add: Cons_nth_drop_Suc)
  then have "pending i (observers s)
      = weight (callbackFunction (observers s ! i)) + pending (Suc i) (observers s)"
    by (simp add: pending_def)
  with pending_invoke [of "Suc i" "observers s ! i" d s] show ?thesis by simp
qed

termination notify_loop
  by (relation "measure (\<lambda>(d, i, s). pending i (observers s))") (simp_all add: pending_step)

declare notify_loop.simps [simp del]


section \<open>Properties of ETO_Observable\<close>

subsection \<open>The notification pass\<close>




lemma make_details_own [simp]: "make_details cd (s\<lparr>own := kps\<rparr>) = make_details cd s"
  by (simp add: make_details_def split: option.split)




subsection \<open>Assigning the value a property already has\<close>





subsection \<open>The duplicate-name check\<close>

text \<open>
  C10. For a name that is not one of the special cases, each of the three add functions
  answers its refusal (\<open>false\<close>, \<open>null\<close>, \<open>false\<close>) exactly when \<open>this[name]\<close> is not
  \<open>undefined\<close>. So a name found on the prototype chain only is refused, and a name whose own
  property holds \<open>undefined\<close> is not.
\<close>

theorem duplicate_name_check:
  "\<not> special_case_name (Str n) \<Longrightarrow>
     ((fst (addProperty (Str n) v r w e s) = Inr False) = (get s n \<noteq> Undefined))
   \<and> ((fst (addPropertyWithPrivateSet (Str n) v e s) = Inr None) = (get s n \<noteq> Undefined))
   \<and> ((fst (addPropertyWithSetFilter (Str n) v (Some f) r e s) = Inr False) = (get s n \<noteq> Undefined))
   \<and> (n \<in> set (proto s) \<and> map_of (own s) n = None \<longrightarrow> get s n \<noteq> Undefined)
   \<and> (\<forall>p. map_of (own s) n = Some p \<and> read_slot (ext s) (slot p) = Undefined
          \<longrightarrow> get s n = Undefined)"
  by (auto simp add: addProperty_def addPropertyWithPrivateSet_def addPropertyWithSetFilter_def
      already_here_def strict_eq_def get_def Let_def split: sum.splits option.splits)

theorem duplicate_name_check_witness:
  "\<not> special_case_name (Str ''toString'')
   \<and> ''toString'' \<notin> set (map fst (own example_object))
   \<and> fst (addProperty (Str ''toString'') (Num 1) None None None example_object) = Inr False
   \<and> fst (addPropertyWithPrivateSet (Str ''toString'') (Num 1) None example_object) = Inr None
   \<and> fst (addPropertyWithSetFilter (Str ''toString'') (Num 1) (Some at_least_ten) None None
            example_object) = Inr False
   \<and> ''x'' \<in> set (map fst (own undefined_x_object))
   \<and> get undefined_x_object ''x'' = Undefined
   \<and> fst (addProperty (Str ''x'') (Num 5) None None None undefined_x_object) = Inr True"
proof -
  have h: "\<not> special_case_name (Str ''toString'')" by code_simp
  have g: "get example_object ''toString'' \<noteq> Undefined" by code_simp
  have o: "''toString'' \<notin> set (map fst (own example_object))" by code_simp
  have x: "''x'' \<in> set (map fst (own undefined_x_object))
            \<and> get undefined_x_object ''x'' = Undefined
            \<and> fst (addProperty (Str ''x'') (Num 5) None None None undefined_x_object) = Inr True"
    by code_simp
  from duplicate_name_check [OF h, of "Num 1" None None None example_object at_least_ten] g
  have "fst (addProperty (Str ''toString'') (Num 1) None None None example_object) = Inr False
   \<and> fst (addPropertyWithPrivateSet (Str ''toString'') (Num 1) None example_object) = Inr None
   \<and> fst (addPropertyWithSetFilter (Str ''toString'') (Num 1) (Some at_least_ten) None None
            example_object) = Inr False"
    by simp
  with h o x show ?thesis by simp
qed


section \<open>Properties of ETO_UndoRedoSystem\<close>

subsection \<open>What notification and assignment leave alone\<close>

lemma run_action_frame:
  "own (run_action a s) = own s \<and> ext (run_action a s) = ext s \<and> self (run_action a s) = self s
   \<and> proto (run_action a s) = proto s \<and> extensible (run_action a s) = extensible s"
  by (cases a) (simp_all add: addChangeObserver_def removeChangeObserver_def Let_def split: option.splits)

lemma fold_run_action_frame:
  "own (fold run_action acts s) = own s \<and> ext (fold run_action acts s) = ext s
   \<and> self (fold run_action acts s) = self s \<and> proto (fold run_action acts s) = proto s
   \<and> extensible (fold run_action acts s) = extensible s"
  by (induction acts arbitrary: s) (simp_all add: run_action_frame)

lemma invoke_frame:
  "own (invoke h d s) = own s \<and> ext (invoke h d s) = ext s \<and> self (invoke h d s) = self s
   \<and> proto (invoke h d s) = proto s \<and> extensible (invoke h d s) = extensible s"
  by (cases "callbackFunction h") (simp_all add: invoke_def Let_def fold_run_action_frame)

lemma notify_loop_frame:
  "own (notify_loop d i s) = own s \<and> ext (notify_loop d i s) = ext s
   \<and> self (notify_loop d i s) = self s \<and> proto (notify_loop d i s) = proto s
   \<and> extensible (notify_loop d i s) = extensible s"
proof (induction d i s rule: notify_loop.induct)
  case (1 d i s)
  show ?case
  proof (cases "i < length (observers s)")
    case True
    then show ?thesis
      using "1.IH" [OF True] by (subst (1 2 3 4 5) notify_loop.simps) (simp add: invoke_frame)
  next
    case False
    then show ?thesis by (subst (1 2 3 4 5) notify_loop.simps) simp
  qed
qed

lemma notifyAll_frame [simp]:
  "own (notifyAll cd s) = own s" "ext (notifyAll cd s) = ext s" "self (notifyAll cd s) = self s"
  "proto (notifyAll cd s) = proto s" "extensible (notifyAll cd s) = extensible s"
  by (simp_all add: notifyAll_def notify_loop_frame)

lemma get_notifyAll [simp]: "get (notifyAll cd s) n = get s n"
  by (simp add: get_def cong: option.case_cong)

lemma slot_of_notifyAll [simp]: "slot_of (notifyAll cd s) n = slot_of s n"
  by (simp add: slot_of_def)

lemma slot_of_ext [simp]: "slot_of (s\<lparr>ext := x\<rparr>) n = slot_of s n"
  by (simp add: slot_of_def)

lemma map_of_update_own:
  "map_of (update_own n p kps) m
     = (if m = n \<and> map_of kps n \<noteq> None then Some p else map_of kps m)"
  by (induction kps) auto

lemma assign_plain_own:
  assumes "plain_writable (slot_of s n)"
  shows "slot_of (assign n v s) m
           = (if m = n then Some (Accessor (Var v) (Shared None)) else slot_of s m)"
    and "ext (assign n v s) = ext s"
    and "self (assign n v s) = self s"
    and "proto (assign n v s) = proto s"
proof -
  from assms obtain p cur where p: "map_of (own s) n = Some p"
    and sl: "slot p = Accessor (Var cur) (Shared None)"
    by (auto simp add: plain_writable_def slot_of_def split: option.splits slot.splits
        getter.splits setter.splits)
  show "slot_of (assign n v s) m
           = (if m = n then Some (Accessor (Var v) (Shared None)) else slot_of s m)"
    using p sl
    by (auto simp add: assign_def call_setter_def Let_def slot_of_def map_of_update_own
        strict_eq_def)
  show "ext (assign n v s) = ext s" "self (assign n v s) = self s"
    "proto (assign n v s) = proto s"
    using p sl by (simp_all add: assign_def call_setter_def Let_def)
qed

lemma get_slot_of:
  "slot_of s n = Some sl \<Longrightarrow> get s n = read_slot (ext s) sl"
  by (auto simp add: get_def slot_of_def)


lemma installed_ext [simp]: "installed (s\<lparr>ext := x\<rparr>) = installed s"
  by (simp add: installed_def)

lemma installed_notifyAll [simp]: "installed (notifyAll cd s) = installed s"
  by (simp add: installed_def)

lemma installed_assign:
  "installed s \<Longrightarrow> n = ''undoText'' \<or> n = ''redoText'' \<Longrightarrow> installed (assign n v s)"
  by (auto simp add: installed_def assign_plain_own plain_writable_def)

lemma installed_counts:
  "installed s \<Longrightarrow> get s ''undoCount'' = Num (int (length (m_undos (ext s))))
     \<and> get s ''redoCount'' = Num (int (length (m_redos (ext s))))"
  by (simp add: installed_def get_slot_of read_slot_def undoCount_get_def redoCount_get_def)




lemma installed_plain:
  "installed s \<Longrightarrow> plain_writable (slot_of s ''undoText'') \<and> plain_writable (slot_of s ''redoText'')"
  by (simp add: installed_def)

lemma text_slots_after:
  assumes "installed s"
  shows "installed (assign ''undoText'' v s)" "installed (assign ''redoText'' v s)"
    and "ext (assign ''undoText'' v s) = ext s" "ext (assign ''redoText'' v s) = ext s"
    and "slot_of (assign ''undoText'' v s) ''undoText'' = Some (Accessor (Var v) (Shared None))"
    and "slot_of (assign ''redoText'' v s) ''redoText'' = Some (Accessor (Var v) (Shared None))"
    and "slot_of (assign ''undoText'' v s) ''redoText'' = slot_of s ''redoText''"
    and "slot_of (assign ''redoText'' v s) ''undoText'' = slot_of s ''undoText''"
  using assms installed_plain [OF assms]
  by (simp_all add: installed_assign assign_plain_own)

subsection \<open>addUndo, execUndo, execRedo\<close>


lemma addUndo_installed: "installed s \<Longrightarrow> installed (addUndo label a s)"
  by (simp add: addUndo_def Let_def text_slots_after)

lemma addUndo_stacks:
  assumes "installed s"
  shows "ext (addUndo label a s)
           = (ext s)\<lparr>m_undos := m_undos (ext s) @ [(label, package a)], m_redos := []\<rparr>"
    and "slot_of (addUndo label a s) ''undoText'' = Some (Accessor (Var label) (Shared None))"
    and "slot_of (addUndo label a s) ''redoText''
           = Some (Accessor (Var (Str ''Redo'')) (Shared None))"
  using assms by (simp_all add: addUndo_def Let_def text_slots_after)

lemma execUndo_effect:
  assumes ins: "installed s"
    and top: "m_undos (ext s) = us @ [(Str t, c)]"
    and ex: "exec c st = Inr (c1, st1)"
  shows "\<exists>s'. execUndo (s, st) = Inr (s', st1) \<and> installed s'
           \<and> ext s' = (ext s)\<lparr>m_undos := us,
                        m_redos := m_redos (ext s) @ [(Str (replace_first t ''Undo'' ''Redo''), c1)]\<rparr>
           \<and> slot_of s' ''redoText''
               = Some (Accessor (Var (Str (replace_first t ''Undo'' ''Redo''))) (Shared None))
           \<and> slot_of s' ''undoText''
               = Some (Accessor (Var (if us = [] then Str ''Undo'' else fst (last us))) (Shared None))"
proof -
  let ?rt = "Str (replace_first t ''Undo'' ''Redo'')"
  define s2 where "s2 = s\<lparr>ext := (ext s)\<lparr>m_undos := us, m_redos := m_redos (ext s) @ [(?rt, c1)]\<rparr>\<rparr>"
  define s3 where "s3 = assign ''redoText'' ?rt s2"
  define s4 where "s4 = notifyAll \<lparr> cd_name = Str ''redoCount'',
                                 cd_oldValue = Num (int (length (m_redos (ext s3))) - 1),
                                 cd_object = self s3, cd_senders = None \<rparr> s3"
  define ut where "ut = (if us = [] then Str ''Undo'' else fst (last us))"
  define s5 where "s5 = assign ''undoText'' ut s4"
  define s6 where "s6 = notifyAll \<lparr> cd_name = Str ''undoCount'',
                                 cd_oldValue = Num (int (length (m_undos (ext s5))) + 1),
                                 cd_object = self s5, cd_senders = None \<rparr> s5"
  have i2: "installed s2" using ins by (simp add: s2_def)
  have i3: "installed s3" using i2 by (simp add: s3_def text_slots_after)
  have i4: "installed s4" using i3 by (simp add: s4_def)
  have i5: "installed s5" using i4 by (simp add: s5_def text_slots_after)
  have e4: "ext s4 = (ext s)\<lparr>m_undos := us, m_redos := m_redos (ext s) @ [(?rt, c1)]\<rparr>"
    using i2 by (simp add: s4_def s3_def text_slots_after) (simp add: s2_def)
  have e6: "ext s6 = (ext s)\<lparr>m_undos := us, m_redos := m_redos (ext s) @ [(?rt, c1)]\<rparr>"
    using i4 by (simp add: s6_def s5_def text_slots_after e4)
  have run: "execUndo (s, st) = Inr (s6, st1)"
    unfolding execUndo_def Let_def
    using ins
    by (simp add: top ex replace_label_def text_slots_after
        s6_def s5_def s4_def s3_def s2_def ut_def)
  have r6: "slot_of s6 ''redoText'' = Some (Accessor (Var ?rt) (Shared None))"
    using i2 i4 by (simp add: s6_def s5_def text_slots_after s4_def s3_def)
  have u6: "slot_of s6 ''undoText'' = Some (Accessor (Var ut) (Shared None))"
    using i4 by (simp add: s6_def s5_def text_slots_after)
  have i6: "installed s6" using i5 by (simp add: s6_def)
  from run i6 e6 r6 u6 show ?thesis by (simp add: ut_def)
qed

lemma execRedo_effect:
  assumes ins: "installed s"
    and top: "m_redos (ext s) = rs @ [(Str t, c)]"
    and ex: "exec c st = Inr (c1, st1)"
  shows "\<exists>s'. execRedo (s, st) = Inr (s', st1) \<and> installed s'
           \<and> ext s' = (ext s)\<lparr>m_undos := m_undos (ext s) @ [(Str (replace_first t ''Redo'' ''Undo''), c1)],
                        m_redos := rs\<rparr>
           \<and> slot_of s' ''undoText''
               = Some (Accessor (Var (Str (replace_first t ''Redo'' ''Undo''))) (Shared None))
           \<and> slot_of s' ''redoText''
               = Some (Accessor (Var (if rs = [] then Str ''Redo'' else fst (last rs))) (Shared None))"
proof -
  let ?ut = "Str (replace_first t ''Redo'' ''Undo'')"
  define s2 where "s2 = s\<lparr>ext := (ext s)\<lparr>m_redos := rs, m_undos := m_undos (ext s) @ [(?ut, c1)]\<rparr>\<rparr>"
  define s3 where "s3 = assign ''undoText'' ?ut s2"
  define s4 where "s4 = notifyAll \<lparr> cd_name = Str ''undoCount'',
                                 cd_oldValue = Num (int (length (m_undos (ext s3))) - 1),
                                 cd_object = self s3, cd_senders = None \<rparr> s3"
  define rt where "rt = (if rs = [] then Str ''Redo'' else fst (last rs))"
  define s5 where "s5 = assign ''redoText'' rt s4"
  define s6 where "s6 = notifyAll \<lparr> cd_name = Str ''redoCount'',
                                 cd_oldValue = Num (int (length (m_redos (ext s5))) + 1),
                                 cd_object = self s5, cd_senders = None \<rparr> s5"
  have i2: "installed s2" using ins by (simp add: s2_def)
  have i3: "installed s3" using i2 by (simp add: s3_def text_slots_after)
  have i4: "installed s4" using i3 by (simp add: s4_def)
  have i5: "installed s5" using i4 by (simp add: s5_def text_slots_after)
  have e4: "ext s4 = (ext s)\<lparr>m_undos := m_undos (ext s) @ [(?ut, c1)], m_redos := rs\<rparr>"
    using i2 by (simp add: s4_def s3_def text_slots_after) (simp add: s2_def)
  have e6: "ext s6 = (ext s)\<lparr>m_undos := m_undos (ext s) @ [(?ut, c1)], m_redos := rs\<rparr>"
    using i4 by (simp add: s6_def s5_def text_slots_after e4)
  have run: "execRedo (s, st) = Inr (s6, st1)"
    unfolding execRedo_def Let_def
    using ins
    by (simp add: top ex replace_label_def text_slots_after
        s6_def s5_def s4_def s3_def s2_def rt_def)
  have r6: "slot_of s6 ''undoText'' = Some (Accessor (Var ?ut) (Shared None))"
    using i2 i4 by (simp add: s6_def s5_def text_slots_after s4_def s3_def)
  have u6: "slot_of s6 ''redoText'' = Some (Accessor (Var rt) (Shared None))"
    using i4 by (simp add: s6_def s5_def text_slots_after)
  have i6: "installed s6" using i5 by (simp add: s6_def)
  from run i6 e6 r6 u6 show ?thesis by (simp add: rt_def)
qed

lemma installed_example: "installed example_system"
  by (simp add: installed_def slot_of_def plain_writable_def example_system_def
      new_ETO_UndoRedoSystem_def ETO_UndoRedoSystem_def then_addProperty_def ETO_Observable_def
      fresh_object_def defineProperty_def value_only_def new_prop_def is_accessor_desc_def
      addProperty_def special_case_name_def already_here_def get_def strict_eq_def
      ETO_UndoRedoSystem_prototype_def ETO_Observable_prototype_def count_getter_def
      desc_setter_def default_true_def read_slot_def notifyAll_def notify_loop.simps Let_def)


text \<open>
  C4. On a system whose four properties are as the constructor installed them and whose
  stacks are empty, with a command whose \<open>exec\<close> returns an inverse whose \<open>exec\<close>
  returns an inverse in turn: after \<open>addUndo("Undo: set x", [cmd])\<close> the counts are 1 and 0
  and \<open>undoText\<close> is the label; \<open>execUndo()\<close> then returns, leaves the counts 0 and 1 and
  \<open>redoText\<close> the label with \<open>Undo\<close> replaced by \<open>Redo\<close>; \<open>execRedo()\<close> then returns and
  leaves the counts 1 and 0, with \<open>undoText\<close> the label again.
\<close>

theorem undo_redo_scenario:
  assumes ins: "installed s"
    and empty: "m_undos (ext s) = []" "m_redos (ext s) = []"
    and ex1: "exec c st = Inr (c1, st1)"
    and ex2: "exec c1 st1 = Inr (c2, st2)"
  shows "get (addUndo (Str ''Undo: set x'') (ArrOfCmds [c]) s) ''undoCount'' = Num 1
       \<and> get (addUndo (Str ''Undo: set x'') (ArrOfCmds [c]) s) ''redoCount'' = Num 0
       \<and> get (addUndo (Str ''Undo: set x'') (ArrOfCmds [c]) s) ''undoText'' = Str ''Undo: set x''
       \<and> (case execUndo (addUndo (Str ''Undo: set x'') (ArrOfCmds [c]) s, st) of
            Inl e \<Rightarrow> False
          | Inr (s2, w2) \<Rightarrow>
              w2 = st1 \<and> get s2 ''undoCount'' = Num 0 \<and> get s2 ''redoCount'' = Num 1
              \<and> get s2 ''redoText'' = Str (replace_first ''Undo: set x'' ''Undo'' ''Redo'')
              \<and> get s2 ''redoText'' = Str ''Redo: set x''
              \<and> (case execRedo (s2, w2) of
                    Inl e \<Rightarrow> False
                  | Inr (s3, w3) \<Rightarrow>
                      w3 = st2 \<and> get s3 ''undoCount'' = Num 1 \<and> get s3 ''redoCount'' = Num 0
                      \<and> get s3 ''undoText'' = Str ''Undo: set x''))"
proof -
  let ?s1 = "addUndo (Str ''Undo: set x'') (ArrOfCmds [c]) s"
  have i1: "installed ?s1" using ins by (rule addUndo_installed)
  have e1: "ext ?s1 = (ext s)\<lparr>m_undos := [(Str ''Undo: set x'', InvertibleCmds [c])], m_redos := []\<rparr>"
    using addUndo_stacks(1) [OF ins] empty by (simp add: package_def)
  have A: "get ?s1 ''undoCount'' = Num 1 \<and> get ?s1 ''redoCount'' = Num 0"
    using installed_counts [OF i1] by (simp add: e1)
  have B: "get ?s1 ''undoText'' = Str ''Undo: set x''"
    using addUndo_stacks(2) [OF ins] by (simp add: get_slot_of read_slot_def)
  have x1: "exec (InvertibleCmds [c]) st = Inr (InvertibleCmds [c1], st1)"
    using ex1 by simp
  have x2: "exec (InvertibleCmds [c1]) st1 = Inr (InvertibleCmds [c2], st2)"
    using ex2 by simp
  have top1: "m_undos (ext ?s1) = [] @ [(Str ''Undo: set x'', InvertibleCmds [c])]"
    by (simp add: e1)
  from execUndo_effect [OF i1 top1 x1] obtain s2 where
    r2: "execUndo (?s1, st) = Inr (s2, st1)" and i2: "installed s2"
    and e2: "ext s2 = (ext ?s1)\<lparr>m_undos := [],
                m_redos := m_redos (ext ?s1) @ [(Str (replace_first ''Undo: set x'' ''Undo'' ''Redo''),
                                                 InvertibleCmds [c1])]\<rparr>"
    and t2: "slot_of s2 ''redoText''
               = Some (Accessor (Var (Str (replace_first ''Undo: set x'' ''Undo'' ''Redo''))) (Shared None))"
    by blast
  have rep: "replace_first ''Undo: set x'' ''Undo'' ''Redo'' = ''Redo: set x''" by simp
  have C: "get s2 ''undoCount'' = Num 0 \<and> get s2 ''redoCount'' = Num 1"
    using installed_counts [OF i2] by (simp add: e2 e1)
  have D: "get s2 ''redoText'' = Str (replace_first ''Undo: set x'' ''Undo'' ''Redo'')"
    using t2 by (simp add: get_slot_of read_slot_def)
  have top2: "m_redos (ext s2) = [] @ [(Str ''Redo: set x'', InvertibleCmds [c1])]"
    by (simp add: e2 e1 rep)
  from execRedo_effect [OF i2 top2 x2] obtain s3 where
    r3: "execRedo (s2, st1) = Inr (s3, st2)" and i3: "installed s3"
    and e3: "ext s3 = (ext s2)\<lparr>m_undos := m_undos (ext s2)
                 @ [(Str (replace_first ''Redo: set x'' ''Redo'' ''Undo''), InvertibleCmds [c2])],
                m_redos := []\<rparr>"
    and t3: "slot_of s3 ''undoText''
               = Some (Accessor (Var (Str (replace_first ''Redo: set x'' ''Redo'' ''Undo''))) (Shared None))"
    by blast
  have E: "get s3 ''undoCount'' = Num 1 \<and> get s3 ''redoCount'' = Num 0"
    using installed_counts [OF i3] by (simp add: e3 e2 e1)
  have F: "get s3 ''undoText'' = Str ''Undo: set x''"
    using t3 by (simp add: get_slot_of read_slot_def)
  from A B C D E F show ?thesis by (simp add: r2 r3 rep)
qed

theorem undo_redo_scenario_witness:
  "installed example_system
   \<and> m_undos (ext example_system) = [] \<and> m_redos (ext example_system) = []
   \<and> exec set_x example_store
       = Inr (SetPropertyCmd 3 ''x'' (Num 1), example_store(3 := (example_store 3)(''x'' := Num 2)))
   \<and> get (addUndo (Str ''Undo: set x'') (ArrOfCmds [set_x]) example_system) ''undoCount'' = Num 1
   \<and> (case execUndo (addUndo (Str ''Undo: set x'') (ArrOfCmds [set_x]) example_system,
                      example_store) of
        Inl e \<Rightarrow> False
      | Inr (s2, w2) \<Rightarrow>
          w2 3 ''x'' = Num 2 \<and> get s2 ''undoCount'' = Num 0 \<and> get s2 ''redoCount'' = Num 1
          \<and> get s2 ''redoText'' = Str ''Redo: set x''
          \<and> (case execRedo (s2, w2) of
                Inl e \<Rightarrow> False
              | Inr (s3, w3) \<Rightarrow>
                  w3 3 ''x'' = Num 1 \<and> get s3 ''undoCount'' = Num 1
                  \<and> get s3 ''redoCount'' = Num 0))"
proof -
  let ?st1 = "example_store(3 := (example_store 3)(''x'' := Num 2))"
  let ?st2 = "?st1(3 := (?st1 3)(''x'' := Num 1))"
  have e: "m_undos (ext example_system) = []" "m_redos (ext example_system) = []"
    by code_simp+
  have x1: "exec set_x example_store = Inr (SetPropertyCmd 3 ''x'' (Num 1), ?st1)"
    by (simp add: set_x_def example_store_def)
  have x2: "exec (SetPropertyCmd 3 ''x'' (Num 1)) ?st1 = Inr (SetPropertyCmd 3 ''x'' (Num 2), ?st2)"
    by simp
  from undo_redo_scenario [OF installed_example e x1 x2] installed_example e x1
  show ?thesis
    by (auto split: sum.splits prod.splits)
qed




section \<open>Properties of ETO_ObservableList\<close>



text \<open>
  C6, at the input where the code departs from it. On the list \<open>a, b, c\<close>,
  \<open>add("z", 2.7)\<close> answers \<open>true\<close> and inserts at index 2: \<open>parseInt\<close> reads the digits
  before the point. And \<open>add("z", null)\<close> throws, since \<open>null.toString()\<close> does.
\<close>

theorem add_fractional_index:
  "toString (Frac False 2 [7]) = Inr ''2.7'' \<and> parseInt ''2.7'' = Some 2
   \<and> toArray abc_world = [Str ''a'', Str ''b'', Str ''c'']
   \<and> fst (add (Str ''z'') (Frac False 2 [7]) abc_world) = Inr True
   \<and> toArray (snd (add (Str ''z'') (Frac False 2 [7]) abc_world))
       = [Str ''a'', Str ''b'', Str ''z'', Str ''c'']
   \<and> fst (add (Str ''z'') Null abc_world) = Inl TypeError"
  by code_simp

text \<open>
  C2, at the input where the code departs from it. On the list \<open>a, b, c\<close>,
  \<open>splice(0, 1)\<close> removes \<open>a\<close> alone and returns \<open>a, b, c\<close>; \<open>splice(1, 1, "x", "y")\<close>
  leaves \<open>a, x, y, c\<close> and returns \<open>b, c\<close>. The returned array holds every item from the
  start index to the end of the list, whatever the delete count.
\<close>

theorem splice_returns_tail:
  "toArray abc_world = [Str ''a'', Str ''b'', Str ''c'']
   \<and> fst (splice 0 (Some 1) [] abc_world) = Inr [Str ''a'', Str ''b'', Str ''c'']
   \<and> toArray (snd (splice 0 (Some 1) [] abc_world)) = [Str ''b'', Str ''c'']
   \<and> fst (splice 1 (Some 1) [Str ''x'', Str ''y''] abc_world) = Inr [Str ''b'', Str ''c'']
   \<and> toArray (snd (splice 1 (Some 1) [Str ''x'', Str ''y''] abc_world))
       = [Str ''a'', Str ''x'', Str ''y'', Str ''c'']"
  by code_simp

text \<open>
  C1, at the input where the code departs from it. The object 10 is added to the empty
  list, at index 0, then \<open>"z"\<close> is inserted at index 0, so the object is at index 1. The
  assignment \<open>x = 2\<close> to the object then gives the list's observer one forwarded
  notification, for the item, the name \<open>x\<close> and the old value 1, and its \<open>index\<close> is 0:
  the callback keeps the index of the insertion.
\<close>

theorem forwarded_index_is_stale:
  "toArray shifted_world = [Str ''z'', Obj 10]
   \<and> indexOf (Obj 10) shifted_world = 1
   \<and> map (\<lambda>c. (ld_index (snd c), ld_listItem (snd c), ld_name (snd c), ld_oldValue (snd c),
                 ld_object (snd c), ld_senders (snd c)))
        (drop (length (l_calls (lst shifted_world)))
           (l_calls (lst (assign_item 10 ''x'' (Num 2) shifted_world))))
       = [(0, Some (Obj 10), Str ''x'', Some (Num 1), Obj 10, [Obj 10, Obj 20])]"
  by code_simp


section \<open>Properties of the serialization round trip\<close>














end
